theory Spec2Isabelle
  imports Main "HOL-Library.Word" "HOL-Library.Signed_Division"
begin

unbundle bit_operations_syntax

section \<open>Time values and their text form\<close>

text \<open>
  \<^verbatim>\<open>gint64\<close> and \<^verbatim>\<open>guint64\<close> values are 64-bit words; \<^verbatim>\<open>guint\<close> is a 32-bit word.
  \<^verbatim>\<open>GST_CLOCK_TIME_NONE\<close> is \<^verbatim>\<open>(GstClockTime) -1\<close>, the word with all bits set.
\<close>

type_synonym gint64 = "64 word"
type_synonym guint = "32 word"

definition GST_CLOCK_TIME_NONE :: gint64 where
  "GST_CLOCK_TIME_NONE = - 1"

definition GST_SECOND :: gint64 where
  "GST_SECOND = 1000000000"

definition TIME_STRING_LENGTH :: nat where
  "TIME_STRING_LENGTH = 13"

text \<open>
  \<^verbatim>\<open>printf\<close>'s \<^verbatim>\<open>%u\<close>: the decimal digits of an unsigned value, most significant first;
  \<^verbatim>\<open>%0wu\<close> pads with zeros on the left up to the width \<open>w\<close> and never truncates.
\<close>

fun dec_digits :: "nat \<Rightarrow> string" where
  "dec_digits n =
     (if n < 10 then [''0123456789'' ! n]
      else dec_digits (n div 10) @ [''0123456789'' ! (n mod 10)])"

declare dec_digits.simps [simp del]

definition printf_0u :: "nat \<Rightarrow> guint \<Rightarrow> string" where
  "printf_0u w v = replicate (w - length (dec_digits (unat v))) CHR ''0'' @ dec_digits (unat v)"

text \<open>
  \<^verbatim>\<open>GST_TIME_ARGS(t)\<close> of the GStreamer headers: the four \<^verbatim>\<open>guint\<close> arguments hours,
  minutes, seconds and nanoseconds of an unsigned 64-bit time, or 99, 99, 99, 999999999
  when the time is \<^verbatim>\<open>GST_CLOCK_TIME_NONE\<close>. The divisions are unsigned.
\<close>

definition GST_CLOCK_TIME_IS_VALID :: "gint64 \<Rightarrow> bool" where
  "GST_CLOCK_TIME_IS_VALID t = (t \<noteq> GST_CLOCK_TIME_NONE)"

definition GST_TIME_ARGS :: "gint64 \<Rightarrow> guint \<times> guint \<times> guint \<times> guint" where
  "GST_TIME_ARGS t =
     ((if GST_CLOCK_TIME_IS_VALID t then ucast (t div (GST_SECOND * 60 * 60)) else 99),
      (if GST_CLOCK_TIME_IS_VALID t then ucast ((t div (GST_SECOND * 60)) mod 60) else 99),
      (if GST_CLOCK_TIME_IS_VALID t then ucast ((t div GST_SECOND) mod 60) else 99),
      (if GST_CLOCK_TIME_IS_VALID t then ucast (t mod GST_SECOND) else 999999999))"

text \<open>
  \<^verbatim>\<open>g_strdup_printf("%02" GST_TIME_FORMAT, ...)\<close>, where \<^verbatim>\<open>GST_TIME_FORMAT\<close> is
  \<^verbatim>\<open>"u:%02u:%02u.%09u"\<close>.
\<close>

definition printf_time :: "guint \<times> guint \<times> guint \<times> guint \<Rightarrow> string" where
  "printf_time a =
     (case a of (h, m, s, ns) \<Rightarrow>
        printf_0u 2 h @ '':'' @ printf_0u 2 m @ '':'' @ printf_0u 2 s @ ''.'' @ printf_0u 9 ns)"

text \<open>
  \<^verbatim>\<open>time_to_string\<close>: the fixed text for the sentinel, otherwise the first
  \<^verbatim>\<open>TIME_STRING_LENGTH - 1\<close> characters of the printed time (\<^verbatim>\<open>g_strndup\<close>).
\<close>

definition time_to_string :: "gint64 \<Rightarrow> string" where
  "time_to_string time =
     (if time = GST_CLOCK_TIME_NONE then ''00:00:00.000''
      else take (TIME_STRING_LENGTH - 1) (printf_time (GST_TIME_ARGS time)))"

section \<open>Data model\<close>

text \<open>
  \<^verbatim>\<open>gint\<close> is a 32-bit word, read as two's complement by \<open>sint\<close> and compared with
  \<open><s\<close>. A \<^verbatim>\<open>guint\<close> source id stored in the \<^verbatim>\<open>gint\<close> field \<^verbatim>\<open>timer_id\<close> keeps its
  bits.
\<close>

type_synonym gint = "32 word"

datatype GstState =
    GST_STATE_VOID_PENDING
  | GST_STATE_NULL
  | GST_STATE_READY
  | GST_STATE_PAUSED
  | GST_STATE_PLAYING

datatype GstStateChangeReturn =
    GST_STATE_CHANGE_FAILURE
  | GST_STATE_CHANGE_SUCCESS
  | GST_STATE_CHANGE_ASYNC
  | GST_STATE_CHANGE_NO_PREROLL

datatype widget_type =
    WIDGET_TYPE_DURATION
  | WIDGET_TYPE_POSITION
  | WIDGET_TYPE_SCALE
  | WIDGET_TYPE_TIMELINE

text \<open>The two pipelines created in \<^verbatim>\<open>main\<close>, and the two timeout callbacks.\<close>

datatype element = Playbin | Timelinebin

datatype callback = Timer_src_func | Timeline_make_thumbnails

text \<open>
  \<^verbatim>\<open>CustomData\<close>. The pointer fields \<^verbatim>\<open>playbin\<close>, \<^verbatim>\<open>timelinebin\<close> and \<^verbatim>\<open>main_window\<close> are
  assigned once in \<^verbatim>\<open>main\<close> and \<^verbatim>\<open>create_ui\<close> before any callback runs; they are the
  constants \<open>Playbin\<close>, \<open>Timelinebin\<close> and \<open>main_window\<close> below.
\<close>

record CustomData =
  state :: GstState
  duration :: gint64
  position :: gint64
  timer_id :: gint

text \<open>
  What the callbacks do to the toolkit, the pipelines and the main loop, in the order
  they do it. \<open>Range_set_value p d\<close> stands for \<^verbatim>\<open>gtk_range_set_value\<close> with the quotient
  of the doubles of \<open>p\<close> and \<open>d\<close>; \<open>Add_image\<close> for \<^verbatim>\<open>widget_add_image\<close> on the timeline
  box; \<open>Pixbuf_save w h stride\<close> for \<^verbatim>\<open>gdk_pixbuf_save\<close> of the frame to
  \<^verbatim>\<open>snapshot.png\<close>.
\<close>

datatype action =
    Print string
  | Critical string
  | Fatal string
  | Set_uri element string
  | Set_state element GstState
  | Query_duration element
  | Query_position element
  | Seek_simple element gint64
  | Pull_preroll
  | Pixbuf_save gint gint gint
  | Label_set_text string string
  | Range_set_value gint64 gint64
  | Add_image
  | Timeout_add nat callback guint
  | Source_remove guint
  | Unref element
  | Main_quit

text \<open>
  The running process: the \<^verbatim>\<open>CustomData\<close> of \<^verbatim>\<open>main\<close>, the function-local
  \<^verbatim>\<open>static int count\<close> of \<^verbatim>\<open>timeline_make_thumbnails\<close>, the timeout sources attached to
  the GLib main loop (id and callback), whether \<^verbatim>\<open>gtk_main\<close> is still running, and the
  actions so far (oldest first).
\<close>

record process =
  data :: CustomData
  count :: gint
  sources :: "(guint \<times> callback) list"
  running :: bool
  out :: "action list"

definition emit :: "action list \<Rightarrow> process \<Rightarrow> process" where
  "emit as w = w\<lparr>out := out w @ as\<rparr>"

text \<open>
  \<^verbatim>\<open>gst_element_query_duration\<close> and \<^verbatim>\<open>gst_element_query_position\<close> store
  \<^verbatim>\<open>GST_CLOCK_TIME_NONE\<close> first and overwrite it with the answer when the query
  succeeds; \<open>None\<close> is a failed query.
\<close>

definition query_result :: "gint64 option \<Rightarrow> gint64" where
  "query_result r = (case r of None \<Rightarrow> GST_CLOCK_TIME_NONE | Some v \<Rightarrow> v)"

section \<open>Widgets\<close>

datatype widget = Widget (wname: string) (children: "widget list")

text \<open>
  The window built by \<^verbatim>\<open>create_ui\<close>: the main box holds \<^verbatim>\<open>main_hbox\<close>, \<^verbatim>\<open>controls\<close> and
  \<^verbatim>\<open>timeline\<close>, in this order. A widget that was given no name answers
  \<^verbatim>\<open>gtk_widget_get_name\<close> with its type name. Children of the controls and the images
  packed into the timeline box are never visited by \<^verbatim>\<open>update_widget\<close>.
\<close>

definition main_window :: widget where
  "main_window =
     Widget ''GtkWindow''
       [Widget ''GtkBox''
          [Widget ''main_hbox'' [Widget ''GtkDrawingArea'' []],
           Widget ''controls''
             [Widget ''GtkButton'' [], Widget ''GtkButton'' [], Widget ''GtkButton'' [],
              Widget ''GtkButton'' [], Widget ''position'' [], Widget ''scale'' [],
              Widget ''duration'' []],
           Widget ''timeline'' []]]"

fun widget_type_to_string :: "widget_type \<Rightarrow> string" where
  "widget_type_to_string WIDGET_TYPE_DURATION = ''duration''"
| "widget_type_to_string WIDGET_TYPE_POSITION = ''position''"
| "widget_type_to_string WIDGET_TYPE_SCALE = ''scale''"
| "widget_type_to_string WIDGET_TYPE_TIMELINE = ''timeline''"

text \<open>\<^verbatim>\<open>make_label_txt\<close>; \<open>None\<close> is the \<^verbatim>\<open>g_error\<close> of the default branch.\<close>

fun make_label_txt :: "widget_type \<Rightarrow> string \<Rightarrow> string option" where
  "make_label_txt WIDGET_TYPE_DURATION time_str = Some (''Duration: '' @ time_str)"
| "make_label_txt WIDGET_TYPE_POSITION time_str = Some (''Position: '' @ time_str)"
| "make_label_txt _ time_str = None"

text \<open>
  \<^verbatim>\<open>set_label_txt\<close>: refuses every type from \<^verbatim>\<open>WIDGET_TYPE_SCALE\<close> on, else sets the
  label to the formatted duration or position.
\<close>

definition set_label_txt :: "widget \<Rightarrow> widget_type \<Rightarrow> CustomData \<Rightarrow> action list" where
  "set_label_txt label type d =
     (if type = WIDGET_TYPE_SCALE \<or> type = WIDGET_TYPE_TIMELINE
      then [Critical ''type < WIDGET_TYPE_SCALE'']
      else
        (let time = (if type = WIDGET_TYPE_DURATION then duration d else position d)
         in case make_label_txt type (time_to_string time) of
              None \<Rightarrow> [Fatal ''Cannot make label text: unexpected widget type'']
            | Some label_txt \<Rightarrow> [Label_set_text (wname label) label_txt]))"

definition widget_add_image :: "widget \<Rightarrow> action list" where
  "widget_add_image widget = [Add_image]"

text \<open>
  \<^verbatim>\<open>update_widget\<close>: the inner loop over the children of one box stops at the first
  control whose name is the type's; the outer loop skips \<^verbatim>\<open>main_hbox\<close>, handles the
  \<^verbatim>\<open>timeline\<close> box (and stops there) for the timeline type, and searches every other
  box.
\<close>

fun update_controls :: "CustomData \<Rightarrow> widget_type \<Rightarrow> widget list \<Rightarrow> action list" where
  "update_controls d type [] = []"
| "update_controls d type (control # it) =
     (if wname control = widget_type_to_string type
      then (if type = WIDGET_TYPE_SCALE then [Range_set_value (position d) (duration d)]
            else set_label_txt control type d)
      else update_controls d type it)"

fun update_boxes :: "CustomData \<Rightarrow> widget_type \<Rightarrow> widget list \<Rightarrow> action list" where
  "update_boxes d type [] = []"
| "update_boxes d type (box # iter) =
     (if wname box = ''main_hbox'' then update_boxes d type iter
      else if wname box = ''timeline''
      then (if type \<noteq> WIDGET_TYPE_TIMELINE then update_boxes d type iter
            else widget_add_image box)
      else update_controls d type (children box) @ update_boxes d type iter)"

definition update_widget :: "widget_type \<Rightarrow> process \<Rightarrow> process" where
  "update_widget type w =
     (case children main_window of
        [] \<Rightarrow> w
      | main_box # _ \<Rightarrow> emit (update_boxes (data w) type (children main_box)) w)"

section \<open>Thumbnail extraction\<close>

definition THUMBNAILS_NUMBER :: gint where
  "THUMBNAILS_NUMBER = 10"

text \<open>
  What the timeline pipeline answers during one call of \<^verbatim>\<open>extract_thumbnails\<close>: the
  return of the state change to paused, the duration query, and the sample pulled from
  the sink with its caps and their \<^verbatim>\<open>width\<close> and \<^verbatim>\<open>height\<close> fields, each of which may be
  missing. \<open>uninit_width\<close> and \<open>uninit_height\<close> are the indeterminate contents of the
  locals \<^verbatim>\<open>width\<close> and \<^verbatim>\<open>height\<close>, which \<^verbatim>\<open>gst_structure_get_int\<close> leaves alone when the
  field is missing.
\<close>

datatype caps = Caps (width_field: "gint option") (height_field: "gint option")

datatype sample = Sample (sample_caps: "caps option")

record tl_response =
  paused_ret :: GstStateChangeReturn
  duration_res :: "gint64 option"
  pulled :: "sample option"
  uninit_width :: gint
  uninit_height :: gint

text \<open>C's \<^verbatim>\<open>/\<close> on \<^verbatim>\<open>gint64\<close>: the quotient truncated towards zero.\<close>

definition sdiv64 :: "gint64 \<Rightarrow> gint64 \<Rightarrow> gint64" where
  "sdiv64 a b = word_of_int (sint a sdiv sint b)"

text \<open>
  The seek target \<^verbatim>\<open>(step+1) * data->duration * 10 / 100\<close>: \<^verbatim>\<open>step + 1\<close> is computed in
  \<^verbatim>\<open>gint\<close> and widened, the products are 64-bit (two's complement wrap-around stands
  for the overflow that C leaves undefined).
\<close>

definition thumbnail_position :: "gint \<Rightarrow> gint64 \<Rightarrow> gint64" where
  "thumbnail_position step dur = sdiv64 (scast (step + 1) * dur * 10) 100"

definition GST_ROUND_UP_4 :: "gint \<Rightarrow> gint" where
  "GST_ROUND_UP_4 num = (num + 3) AND NOT 3"

definition extract_thumbnails :: "gint \<Rightarrow> tl_response \<Rightarrow> process \<Rightarrow> process" where
  "extract_thumbnails step r w =
     (let w1 = emit [Set_state Timelinebin GST_STATE_PAUSED] w in
      case paused_ret r of
        GST_STATE_CHANGE_FAILURE \<Rightarrow> emit [Print (''failed to play the file'' @ [CHR 0x0A])] w1
      | GST_STATE_CHANGE_NO_PREROLL \<Rightarrow>
          emit [Print (''live sources not supported yet'' @ [CHR 0x0A])] w1
      | _ \<Rightarrow>
          (let w2 = (emit [Query_duration Timelinebin] w1)
                      \<lparr>data := (data w1)\<lparr>duration := query_result (duration_res r)\<rparr>\<rparr>;
               position = thumbnail_position step (duration (data w2));
               w3 = emit [Seek_simple Timelinebin position, Pull_preroll] w2
           in case pulled r of
                None \<Rightarrow> emit [Print (''could not make snapshot'' @ [CHR 0x0A])] w3
              | Some smp \<Rightarrow>
                  (case sample_caps smp of
                     None \<Rightarrow> emit [Print (''could not get snapshot format'' @ [CHR 0x0A])] w3
                   | Some s \<Rightarrow>
                       (let width = (case width_field s of None \<Rightarrow> uninit_width r | Some v \<Rightarrow> v);
                            height = (case height_field s of None \<Rightarrow> uninit_height r | Some v \<Rightarrow> v);
                            res = (case width_field s of None \<Rightarrow> False | Some v \<Rightarrow> True);
                            res = (res \<or> (case height_field s of None \<Rightarrow> False | Some v \<Rightarrow> True))
                        in if \<not> res
                           then emit [Print (''could not get snapshot dimension'' @ [CHR 0x0A])] w3
                           else emit [Pixbuf_save width height (GST_ROUND_UP_4 (width * 3))] w3))))"

text \<open>
  \<^verbatim>\<open>timeline_make_thumbnails\<close>: the returned flag is the \<^verbatim>\<open>gboolean\<close> that keeps
  (\<^verbatim>\<open>TRUE\<close>) or removes (\<^verbatim>\<open>G_SOURCE_REMOVE\<close>) the timeout source.
\<close>

definition timeline_make_thumbnails :: "tl_response \<Rightarrow> process \<Rightarrow> bool \<times> process" where
  "timeline_make_thumbnails r w =
     (if count w <s THUMBNAILS_NUMBER
      then (True, (update_widget WIDGET_TYPE_TIMELINE (extract_thumbnails (count w) r w))
                    \<lparr>count := count w + 1\<rparr>)
      else (False, emit [Set_state Timelinebin GST_STATE_NULL, Unref Timelinebin] w))"

section \<open>The main loop's timeout sources\<close>

text \<open>
  \<^verbatim>\<open>g_timeout_add\<close> attaches a source and returns its id, which GLib chooses;
  \<^verbatim>\<open>g_source_remove\<close> destroys the source with the given id, which is then never
  dispatched again.
\<close>

definition g_timeout_add :: "nat \<Rightarrow> callback \<Rightarrow> guint \<Rightarrow> process \<Rightarrow> process" where
  "g_timeout_add interval function sid w =
     emit [Timeout_add interval function sid] (w\<lparr>sources := sources w @ [(sid, function)]\<rparr>)"

definition destroy_source :: "guint \<Rightarrow> process \<Rightarrow> process" where
  "destroy_source sid w = w\<lparr>sources := filter (\<lambda>s. fst s \<noteq> sid) (sources w)\<rparr>"

definition g_source_remove :: "guint \<Rightarrow> process \<Rightarrow> process" where
  "g_source_remove sid w = emit [Source_remove sid] (destroy_source sid w)"

section \<open>Callbacks\<close>

definition play_cb :: "process \<Rightarrow> process" where
  "play_cb w = emit [Set_state Playbin GST_STATE_PLAYING] w"

definition pause_cb :: "process \<Rightarrow> process" where
  "pause_cb w = emit [Set_state Playbin GST_STATE_PAUSED] w"

definition stop_cb :: "process \<Rightarrow> process" where
  "stop_cb w = emit [Set_state Playbin GST_STATE_READY] w"

text \<open>
  \<^verbatim>\<open>open_cb\<close>: \<open>res\<close> is the uri of the chosen file, or \<open>None\<close> when the dialog was not
  accepted; \<open>sid\<close> is the id \<^verbatim>\<open>g_timeout_add\<close> returns.
\<close>

definition open_cb :: "string option \<Rightarrow> guint \<Rightarrow> process \<Rightarrow> process" where
  "open_cb res sid w =
     (case res of
        None \<Rightarrow> w
      | Some filename \<Rightarrow>
          emit [Set_uri Playbin filename, Set_state Playbin GST_STATE_PLAYING]
            (g_timeout_add 1000 Timeline_make_thumbnails sid
               (emit [Set_uri Timelinebin filename] w)))"

text \<open>
  \<^verbatim>\<open>delete_event_cb\<close>, followed by what \<^verbatim>\<open>main\<close> does once \<^verbatim>\<open>gtk_main\<close> has returned.
\<close>

definition delete_event_cb :: "process \<Rightarrow> process" where
  "delete_event_cb w =
     (emit [Main_quit, Set_state Playbin GST_STATE_NULL, Unref Playbin] (stop_cb w))
       \<lparr>running := False\<rparr>"

text \<open>
  \<^verbatim>\<open>scale_cb\<close>: \<open>target\<close> is the \<^verbatim>\<open>gint64\<close> that the conversion of the double
  \<^verbatim>\<open>value * data->duration\<close> yields, \<open>ok\<close> the answer of the seek.
\<close>

definition scale_cb :: "gint64 \<Rightarrow> bool \<Rightarrow> process \<Rightarrow> process" where
  "scale_cb target ok w =
     (let w1 = emit [Seek_simple Playbin target] w
      in if \<not> ok then emit [Print (''Seek failed ! '' @ [CHR 0x0A])] w1 else w1)"

definition error_cb :: "string \<Rightarrow> string \<Rightarrow> string option \<Rightarrow> process \<Rightarrow> process" where
  "error_cb src_name message debug_info w =
     emit [Print (''Error received from element '' @ src_name @ '': '' @ message @ [CHR 0x0A]),
           Print (''Debugging information: ''
                  @ (case debug_info of None \<Rightarrow> ''none'' | Some i \<Rightarrow> i) @ [CHR 0x0A]),
           Set_state Playbin GST_STATE_READY] w"

definition eos_cb :: "process \<Rightarrow> process" where
  "eos_cb w =
     (let w1 = emit [Print (''End-Of-Stream reached.'' @ [CHR 0x0A]),
                     Set_state Playbin GST_STATE_READY] w;
          w2 = w1\<lparr>data := (data w1)\<lparr>position := duration (data w1)\<rparr>\<rparr>
      in update_widget WIDGET_TYPE_POSITION w2)"

text \<open>
  \<^verbatim>\<open>timer_src_func\<close>: \<open>res\<close> is the answer of the position query; the returned flag
  keeps (\<^verbatim>\<open>TRUE\<close>) or removes (\<^verbatim>\<open>G_SOURCE_REMOVE\<close>) the timeout source.
\<close>

definition timer_src_func :: "gint64 option \<Rightarrow> process \<Rightarrow> bool \<times> process" where
  "timer_src_func res w =
     (let w1 = (emit [Query_position Playbin] w)
                 \<lparr>data := (data w)\<lparr>position := query_result res\<rparr>\<rparr>
      in if position (data w1) \<noteq> duration (data w1)
         then (True, update_widget WIDGET_TYPE_SCALE (update_widget WIDGET_TYPE_POSITION w1))
         else (False, w1\<lparr>data := (data w1)\<lparr>timer_id := - 1\<rparr>\<rparr>))"

fun gst_element_state_get_name :: "GstState \<Rightarrow> string" where
  "gst_element_state_get_name GST_STATE_VOID_PENDING = ''VOID_PENDING''"
| "gst_element_state_get_name GST_STATE_NULL = ''NULL''"
| "gst_element_state_get_name GST_STATE_READY = ''READY''"
| "gst_element_state_get_name GST_STATE_PAUSED = ''PAUSED''"
| "gst_element_state_get_name GST_STATE_PLAYING = ''PLAYING''"

text \<open>
  \<^verbatim>\<open>state_changed_cb\<close>: \<open>from_playbin\<close> tells whether the message's source is the playbin
  itself (rather than one of its children), \<open>sid\<close> is the id \<^verbatim>\<open>g_timeout_add\<close> returns
  and \<open>res\<close> the answer of the duration query, both used on entering the playing state
  only.
\<close>

definition state_changed_cb ::
    "bool \<Rightarrow> GstState \<Rightarrow> guint \<Rightarrow> gint64 option \<Rightarrow> process \<Rightarrow> process" where
  "state_changed_cb from_playbin new_state sid res w =
     (if from_playbin then
        (let w1 = (emit [Print (''State set to '' @ gst_element_state_get_name new_state
                                @ [CHR 0x0A])] w)
                    \<lparr>data := (data w)\<lparr>state := new_state\<rparr>\<rparr>
         in if new_state = GST_STATE_PLAYING then
              (let w2 = g_timeout_add 20 Timer_src_func sid w1;
                   w3 = w2\<lparr>data := (data w2)\<lparr>timer_id := sid\<rparr>\<rparr>;
                   w4 = (emit [Query_duration Playbin] w3)
                          \<lparr>data := (data w3)\<lparr>duration := query_result res\<rparr>\<rparr>
               in update_widget WIDGET_TYPE_DURATION w4)
            else if new_state = GST_STATE_PAUSED then
              (if 0 <s timer_id (data w1)
               then (let w2 = g_source_remove (timer_id (data w1)) w1
                     in w2\<lparr>data := (data w2)\<lparr>timer_id := - 1\<rparr>\<rparr>)
               else w1)
            else w1)
      else w)"

text \<open>
  The process when \<^verbatim>\<open>main\<close> enters \<^verbatim>\<open>gtk_main\<close>: \<^verbatim>\<open>memset\<close> leaves \<^verbatim>\<open>state\<close> at 0, which is
  \<^verbatim>\<open>GST_STATE_VOID_PENDING\<close>; duration and position are the sentinel; \<^verbatim>\<open>timer_id\<close> is
  -1; the static \<^verbatim>\<open>count\<close> is 0; \<^verbatim>\<open>create_ui\<close> has set the two labels.
\<close>

definition main_data :: CustomData where
  "main_data =
     \<lparr>state = GST_STATE_VOID_PENDING, duration = GST_CLOCK_TIME_NONE,
      position = GST_CLOCK_TIME_NONE, timer_id = - 1\<rparr>"

definition main_init :: process where
  "main_init =
     \<lparr>data = main_data, count = 0, sources = [], running = True,
      out = set_label_txt (Widget ''position'' []) WIDGET_TYPE_POSITION main_data
            @ set_label_txt (Widget ''duration'' []) WIDGET_TYPE_DURATION main_data\<rparr>"

section \<open>Events of the main loop\<close>

text \<open>
  One event is one callback invocation by the GTK main loop, with the answers that the
  toolkit, GLib and the pipelines give during it. When a timeout callback returns
  \<^verbatim>\<open>G_SOURCE_REMOVE\<close> the loop destroys its source.
\<close>

datatype event =
    Open_clicked "string option" guint
  | Play_clicked
  | Pause_clicked
  | Stop_clicked
  | Scale_changed gint64 bool
  | Delete_event
  | Bus_error string string "string option"
  | Bus_eos
  | Bus_state_changed bool GstState guint "gint64 option"
  | Poll_timeout guint "gint64 option"
  | Thumb_timeout guint tl_response

definition dispatch_timeout :: "guint \<Rightarrow> bool \<times> process \<Rightarrow> process" where
  "dispatch_timeout sid r = (if fst r then snd r else destroy_source sid (snd r))"

fun step :: "event \<Rightarrow> process \<Rightarrow> process" where
  "step (Open_clicked res sid) w = open_cb res sid w"
| "step Play_clicked w = play_cb w"
| "step Pause_clicked w = pause_cb w"
| "step Stop_clicked w = stop_cb w"
| "step (Scale_changed target ok) w = scale_cb target ok w"
| "step Delete_event w = delete_event_cb w"
| "step (Bus_error n m i) w = error_cb n m i w"
| "step Bus_eos w = eos_cb w"
| "step (Bus_state_changed from_playbin new_state sid res) w =
     state_changed_cb from_playbin new_state sid res w"
| "step (Poll_timeout sid res) w = dispatch_timeout sid (timer_src_func res w)"
| "step (Thumb_timeout sid r) w = dispatch_timeout sid (timeline_make_thumbnails r w)"

fun run :: "event list \<Rightarrow> process \<Rightarrow> process" where
  "run [] w = w"
| "run (e # es) w = run es (step e w)"

text \<open>
  What the environment guarantees. A source id that GLib returns is not zero, belongs
  to no live source, and (GLib counts ids up from 1) is positive as a \<^verbatim>\<open>gint\<close>. A
  timeout fires only for a live source with that callback, and nothing fires once the
  main loop has quit. A pipeline changes state one step at a time, so the
  state-changed message of the playbin that follows the playing state announces the
  paused state.
\<close>

definition fresh_id :: "guint \<Rightarrow> process \<Rightarrow> bool" where
  "fresh_id sid w = (0 <s sid \<and> sid \<notin> fst ` set (sources w))"

fun enabled :: "event \<Rightarrow> process \<Rightarrow> bool" where
  "enabled (Open_clicked res sid) w = (running w \<and> fresh_id sid w)"
| "enabled (Bus_state_changed from_playbin new_state sid res) w =
     (running w \<and> fresh_id sid w
      \<and> (if from_playbin \<and> state (data w) = GST_STATE_PLAYING
         then new_state = GST_STATE_PAUSED else True))"
| "enabled (Poll_timeout sid res) w = (running w \<and> (sid, Timer_src_func) \<in> set (sources w))"
| "enabled (Thumb_timeout sid r) w =
     (running w \<and> (sid, Timeline_make_thumbnails) \<in> set (sources w))"
| "enabled _ w = running w"

fun valid_trace :: "event list \<Rightarrow> process \<Rightarrow> bool" where
  "valid_trace [] w = True"
| "valid_trace (e # es) w = (enabled e w \<and> valid_trace es (step e w))"

section \<open>Observations on runs\<close>

text \<open>
  The live sources that run \<^verbatim>\<open>timer_src_func\<close>; the thumbnail notifications (images
  added to the timeline) and the calls of \<^verbatim>\<open>extract_thumbnails\<close> (each starts with the
  state change of the timeline pipeline to paused) among a list of actions; the slider
  and position-label updates; the events that confirm the playing state and those that
  fire a position-polling timeout.
\<close>

definition pollers :: "process \<Rightarrow> guint list" where
  "pollers w = map fst (filter (\<lambda>s. snd s = Timer_src_func) (sources w))"

definition notifications :: "action list \<Rightarrow> nat" where
  "notifications as = length (filter (\<lambda>a. a = Add_image) as)"

definition extractions :: "action list \<Rightarrow> nat" where
  "extractions as = length (filter (\<lambda>a. a = Set_state Timelinebin GST_STATE_PAUSED) as)"

fun is_slider_update :: "action \<Rightarrow> bool" where
  "is_slider_update (Range_set_value p d) = True"
| "is_slider_update _ = False"

fun is_position_update :: "action \<Rightarrow> bool" where
  "is_position_update (Label_set_text name txt) = (name = ''position'')"
| "is_position_update _ = False"

fun confirms_playing :: "event \<Rightarrow> bool" where
  "confirms_playing (Bus_state_changed from_playbin new_state sid res) =
     (from_playbin \<and> new_state = GST_STATE_PLAYING)"
| "confirms_playing _ = False"

fun is_poll_timeout :: "event \<Rightarrow> bool" where
  "is_poll_timeout (Poll_timeout sid res) = True"
| "is_poll_timeout _ = False"

text \<open>
  Two invariants of runs: the static counter stays within 0..10 and counts both the
  extraction steps and the notifications; a live position poller is the one recorded
  in \<^verbatim>\<open>timer_id\<close>, and the confirmed state is then playing.
\<close>

definition counted :: "process \<Rightarrow> bool" where
  "counted w =
     (0 \<le> sint (count w) \<and> sint (count w) \<le> 10
      \<and> extractions (out w) = nat (sint (count w))
      \<and> notifications (out w) = nat (sint (count w)))"

definition poller_ok :: "process \<Rightarrow> bool" where
  "poller_ok w =
     (pollers w = [] \<or>
      (pollers w = [timer_id (data w)] \<and> 0 <s timer_id (data w)
       \<and> state (data w) = GST_STATE_PLAYING))"


text \<open>
  Sample inputs: a one-minute clip whose timeline pipeline prerolls and delivers a
  160x90 frame, and the start of a playback session on it (file chosen, the playbin
  reaching the playing state step by step, one poll at 1 s).
\<close>

definition frame_response :: tl_response where
  "frame_response =
     \<lparr>paused_ret = GST_STATE_CHANGE_ASYNC, duration_res = Some 60000000000,
      pulled = Some (Sample (Some (Caps (Some 160) (Some 90)))),
      uninit_width = 0, uninit_height = 0\<rparr>"

definition playing_session :: "event list" where
  "playing_session =
     [Open_clicked (Some ''file:///clip.mp4'') 1,
      Bus_state_changed True GST_STATE_READY 2 None,
      Bus_state_changed True GST_STATE_PAUSED 2 None,
      Bus_state_changed True GST_STATE_PLAYING 2 (Some 60000000000),
      Poll_timeout 2 (Some 1000000000)]"

section \<open>Auxiliary facts\<close>

subsection \<open>Widget updates on the window of \<^verbatim>\<open>create_ui\<close>\<close>

lemma update_widget_position:
  "update_widget WIDGET_TYPE_POSITION w =
     emit [Label_set_text ''position'' (''Position: '' @ time_to_string (position (data w)))] w"
  by (simp add: update_widget_def main_window_def set_label_txt_def)

lemma update_widget_duration:
  "update_widget WIDGET_TYPE_DURATION w =
     emit [Label_set_text ''duration'' (''Duration: '' @ time_to_string (duration (data w)))] w"
  by (simp add: update_widget_def main_window_def set_label_txt_def)

lemma update_widget_scale:
  "update_widget WIDGET_TYPE_SCALE w =
     emit [Range_set_value (position (data w)) (duration (data w))] w"
  by (simp add: update_widget_def main_window_def set_label_txt_def)

lemma update_widget_timeline:
  "update_widget WIDGET_TYPE_TIMELINE w = emit [Add_image] w"
  by (simp add: update_widget_def main_window_def set_label_txt_def widget_add_image_def)

lemmas update_widget_simps =
  update_widget_position update_widget_duration update_widget_scale update_widget_timeline

subsection \<open>Fields through the basic operations\<close>

lemma out_emit [simp]: "out (emit as w) = out w @ as"
  by (simp add: emit_def)

lemma out_destroy [simp]: "out (destroy_source sid w) = out w"
  by (simp add: destroy_source_def)

lemma out_timeout_add [simp]:
  "out (g_timeout_add interval function sid w) = out w @ [Timeout_add interval function sid]"
  by (simp add: g_timeout_add_def emit_def)

lemma data_emit [simp]: "data (emit as w) = data w"
  by (simp add: emit_def)

lemma data_destroy [simp]: "data (destroy_source sid w) = data w"
  by (simp add: destroy_source_def)

lemma data_timeout_add [simp]: "data (g_timeout_add interval function sid w) = data w"
  by (simp add: g_timeout_add_def)

lemma pollers_emit [simp]: "pollers (emit as w) = pollers w"
  by (simp add: pollers_def emit_def)

lemma pollers_updates [simp]:
  "pollers (w\<lparr>data := d\<rparr>) = pollers w"
  "pollers (w\<lparr>count := c\<rparr>) = pollers w"
  "pollers (w\<lparr>running := b\<rparr>) = pollers w"
  "pollers (w\<lparr>out := as\<rparr>) = pollers w"
  by (simp_all add: pollers_def)

lemma pollers_destroy [simp]:
  "pollers (destroy_source sid w) = filter (\<lambda>i. i \<noteq> sid) (pollers w)"
  by (simp add: pollers_def destroy_source_def filter_map comp_def conj_commute)

lemma pollers_timeout_add [simp]:
  "pollers (g_timeout_add interval function sid w) =
     pollers w @ (if function = Timer_src_func then [sid] else [])"
  by (simp add: pollers_def g_timeout_add_def emit_def)

lemma pollers_extract [simp]: "pollers (extract_thumbnails s r w) = pollers w"
  by (cases "paused_ret r") (auto simp: extract_thumbnails_def Let_def split: option.splits)

lemma pollers_mem: "(sid, Timer_src_func) \<in> set (sources w) \<Longrightarrow> sid \<in> set (pollers w)"
  by (force simp: pollers_def)

lemma run_append: "run (xs @ ys) w = run ys (run xs w)"
  by (induction xs arbitrary: w) auto

lemma valid_trace_append:
  "valid_trace (xs @ ys) w = (valid_trace xs w \<and> valid_trace ys (run xs w))"
  by (induction xs arbitrary: w) auto

subsection \<open>Arithmetic of the seek target\<close>

lemma step_cast:
  assumes "s \<le> (9::nat)"
  shows "sint (scast (of_nat s + 1 :: gint) :: gint64) = int s + 1"
proof -
  from assms have "s \<in> {0,1,2,3,4,5,6,7,8,9}" by auto
  then show ?thesis by auto
qed

lemma sint_mul_small:
  fixes a b :: gint64
  assumes "- (2 ^ 63) \<le> sint a * sint b" "sint a * sint b < 2 ^ 63"
  shows "sint (a * b) = sint a * sint b"
  using assms by (simp add: sint_word_ariths signed_take_bit_int_eq_self)

lemma thumbnail_position_sint:
  assumes "s \<le> 9" "0 \<le> sint D" "sint D \<le> 92233720368547758"
  shows "sint (thumbnail_position (of_nat s) D) = (int s + 1) * sint D * 10 div 100"
proof -
  let ?k = "scast (of_nat s + 1 :: gint) :: gint64"
  define X where "X = (int s + 1) * sint D"
  have k: "sint ?k = int s + 1" using assms(1) by (rule step_cast)
  have "(int s + 1) * sint D \<le> 10 * 92233720368547758"
    using assms by (intro mult_mono) auto
  then have b1: "X \<le> 922337203685477580" by (simp add: X_def)
  have b0: "0 \<le> X" using assms by (simp add: X_def)
  have p1: "sint (?k * D) = X"
    using b0 b1 k by (subst sint_mul_small) (auto simp: X_def)
  have p2: "sint (?k * D * 10) = X * 10"
    using b0 b1 by (subst sint_mul_small) (auto simp: p1)
  have q: "sint (?k * D * 10) sdiv sint (100 :: gint64) = X * 10 div 100"
    using b0 by (simp add: p2 signed_divide_int_def sgn_if)
  have ub: "X * 10 div 100 < 2 ^ 63" using b1 by simp
  have lb: "0 \<le> X * 10 div 100" using b0 by simp
  have "sint (thumbnail_position (of_nat s) D) = X * 10 div 100"
    unfolding thumbnail_position_def sdiv64_def q
    using ub lb by (simp add: sint_sbintrunc' signed_take_bit_int_eq_self)
  then show ?thesis by (simp add: X_def)
qed

lemma tenth_succ_le:
  fixes d :: int
  assumes "0 \<le> d"
  shows "(int s + 1) * d div 10 \<le> (int s + 2) * d div 10"
proof -
  have "(int s + 1) * d \<le> (int s + 2) * d" using assms by (intro mult_right_mono) auto
  then show ?thesis by (rule zdiv_mono1) simp
qed

lemma tenth_succ_less:
  fixes d :: int
  assumes "10 \<le> d"
  shows "(int s + 1) * d div 10 < (int s + 2) * d div 10"
proof -
  have "(int s + 2) * d = (int s + 1) * d + d" by (simp add: algebra_simps)
  then show ?thesis using assms by simp
qed

lemma tenth_less:
  fixes d :: int
  assumes "0 < d" "s < 9"
  shows "(int s + 1) * d div 10 < d"
proof -
  define y where "y = (int s + 1) * d"
  have "(int s + 1) * d \<le> 9 * d" using assms by (intro mult_right_mono) auto
  then have "y \<le> 9 * d" by (simp add: y_def)
  then have "y div 10 < d" using assms(1) by arith
  then show ?thesis by (simp add: y_def)
qed

subsection \<open>The counter counts extraction steps and notifications\<close>

lemma sint_count_succ:
  fixes c :: gint
  assumes "0 \<le> sint c" "sint c < 10"
  shows "sint (c + 1) = sint c + 1"
  using assms by (simp add: sint_word_ariths signed_take_bit_int_eq_self)

lemma extract_thumbnails_counts:
  "extractions (out (extract_thumbnails s r w)) = Suc (extractions (out w))
   \<and> notifications (out (extract_thumbnails s r w)) = notifications (out w)
   \<and> count (extract_thumbnails s r w) = count w"
  by (cases "paused_ret r")
     (auto simp: extract_thumbnails_def Let_def emit_def extractions_def notifications_def
           split: option.splits)

lemma counted_step: "counted w \<Longrightarrow> counted (step e w)"
proof (cases e)
  case (Thumb_timeout sid r)
  assume c: "counted w"
  show ?thesis
  proof (cases "count w <s THUMBNAILS_NUMBER")
    case True
    then have lt: "sint (count w) < 10" by (simp add: word_sless_alt THUMBNAILS_NUMBER_def)
    from c have nn: "0 \<le> sint (count w)" by (simp add: counted_def)
    have s: "sint (count w + 1) = sint (count w) + 1" using nn lt by (rule sint_count_succ)
    show ?thesis
      using c True lt nn extract_thumbnails_counts [of "count w" r w]
      by (simp add: Thumb_timeout timeline_make_thumbnails_def dispatch_timeout_def
            update_widget_timeline emit_def counted_def s extractions_def notifications_def
            nat_add_distrib)
  next
    case False
    then show ?thesis
      using c
      by (simp add: Thumb_timeout timeline_make_thumbnails_def dispatch_timeout_def
            destroy_source_def emit_def counted_def extractions_def notifications_def)
  qed
qed (auto simp: counted_def extractions_def notifications_def emit_def open_cb_def
       g_timeout_add_def play_cb_def pause_cb_def stop_cb_def scale_cb_def Let_def
       delete_event_cb_def error_cb_def eos_cb_def update_widget_simps
       state_changed_cb_def g_source_remove_def destroy_source_def
       timer_src_func_def dispatch_timeout_def split: option.splits)

lemma counted_init: "counted main_init"
  by (simp add: counted_def main_init_def extractions_def notifications_def set_label_txt_def)

lemma counted_run: "counted w \<Longrightarrow> counted (run evs w)"
  by (induction evs arbitrary: w) (auto intro: counted_step)

subsection \<open>The position poller\<close>

lemma poller_ok_step:
  assumes "poller_ok w" "enabled e w"
  shows "poller_ok (step e w)"
proof (cases e)
  case (Bus_state_changed from_playbin new_state sid res)
  show ?thesis
  proof (cases "from_playbin")
    case False
    then show ?thesis using assms(1) by (simp add: Bus_state_changed state_changed_cb_def)
  next
    case True
    show ?thesis
    proof (cases "state (data w) = GST_STATE_PLAYING")
      case True
      with assms(2) \<open>from_playbin\<close> have "new_state = GST_STATE_PAUSED"
        by (simp add: Bus_state_changed)
      then show ?thesis using assms(1) \<open>from_playbin\<close>
        by (auto simp: Bus_state_changed state_changed_cb_def Let_def poller_ok_def
              g_source_remove_def)
    next
      case False
      with assms(1) have "pollers w = []" by (auto simp: poller_ok_def)
      moreover from assms(2) have "0 <s sid" by (simp add: Bus_state_changed fresh_id_def)
      ultimately show ?thesis using \<open>from_playbin\<close>
        by (auto simp: Bus_state_changed state_changed_cb_def Let_def poller_ok_def
              g_source_remove_def update_widget_simps)
    qed
  qed
next
  case (Poll_timeout sid res)
  with assms(2) have "sid \<in> set (pollers w)" by (simp add: pollers_mem)
  with assms(1) have p: "pollers w = [sid]" "timer_id (data w) = sid" "0 <s sid"
    "state (data w) = GST_STATE_PLAYING"
    by (auto simp: poller_ok_def)
  then show ?thesis
    by (auto simp: Poll_timeout timer_src_func_def Let_def dispatch_timeout_def poller_ok_def
          update_widget_simps)
next
  case (Thumb_timeout sid r)
  have ext: "timer_id (data (extract_thumbnails s r w)) = timer_id (data w)
      \<and> state (data (extract_thumbnails s r w)) = state (data w)" for s
    by (cases "paused_ret r") (auto simp: extract_thumbnails_def Let_def split: option.splits)
  show ?thesis using assms(1)
    by (auto simp: Thumb_timeout timeline_make_thumbnails_def dispatch_timeout_def poller_ok_def
          update_widget_simps ext)
qed (use assms(1) in \<open>auto simp: poller_ok_def open_cb_def play_cb_def
       pause_cb_def stop_cb_def scale_cb_def Let_def delete_event_cb_def error_cb_def eos_cb_def
       update_widget_simps split: option.splits\<close>)

lemma poller_ok_init: "poller_ok main_init"
  by (simp add: poller_ok_def pollers_def main_init_def)

lemma poller_ok_run: "poller_ok w \<Longrightarrow> valid_trace evs w \<Longrightarrow> poller_ok (run evs w)"
  by (induction evs arbitrary: w) (auto intro: poller_ok_step)

lemma paused_clears_pollers:
  "poller_ok w \<Longrightarrow> pollers (step (Bus_state_changed True GST_STATE_PAUSED sid res) w) = []"
  by (auto simp: poller_ok_def state_changed_cb_def Let_def g_source_remove_def)

lemma idle_step:
  assumes "pollers w = []" "enabled e w" "\<not> confirms_playing e"
  shows "pollers (step e w) = [] \<and> \<not> is_poll_timeout e
     \<and> filter is_slider_update (out (step e w)) = filter is_slider_update (out w)
     \<and> length (filter is_position_update (out (step e w)))
        = length (filter is_position_update (out w)) + (if e = Bus_eos then 1 else 0)"
proof (cases e)
  case (Poll_timeout sid res)
  with assms(2) have "sid \<in> set (pollers w)" by (simp add: pollers_mem)
  with assms(1) show ?thesis by simp
next
  case (Thumb_timeout sid r)
  have ext: "filter is_slider_update (out (extract_thumbnails s r w))
        = filter is_slider_update (out w)
      \<and> filter is_position_update (out (extract_thumbnails s r w))
        = filter is_position_update (out w)" for s
    by (cases "paused_ret r") (auto simp: extract_thumbnails_def Let_def split: option.splits)
  show ?thesis using assms(1)
    by (auto simp: Thumb_timeout timeline_make_thumbnails_def dispatch_timeout_def
          update_widget_simps ext)
next
  case (Bus_state_changed from_playbin new_state sid res)
  with assms(3) have "\<not> (from_playbin \<and> new_state = GST_STATE_PLAYING)" by simp
  then show ?thesis using assms(1)
    by (auto simp: Bus_state_changed state_changed_cb_def Let_def g_source_remove_def)
qed (use assms(1) in \<open>auto simp: open_cb_def play_cb_def
       pause_cb_def stop_cb_def scale_cb_def Let_def delete_event_cb_def error_cb_def eos_cb_def
       update_widget_simps split: option.splits\<close>)

lemma idle_run:
  assumes "pollers w = []" "valid_trace evs w" "\<forall>e \<in> set evs. \<not> confirms_playing e"
  shows "pollers (run evs w) = [] \<and> (\<forall>e \<in> set evs. \<not> is_poll_timeout e)
     \<and> filter is_slider_update (out (run evs w)) = filter is_slider_update (out w)
     \<and> length (filter is_position_update (out (run evs w)))
        = length (filter is_position_update (out w)) + length (filter (\<lambda>e. e = Bus_eos) evs)"
  using assms
proof (induction evs arbitrary: w)
  case Nil
  then show ?case by simp
next
  case (Cons e es)
  from Cons.prems have s: "pollers (step e w) = [] \<and> \<not> is_poll_timeout e
     \<and> filter is_slider_update (out (step e w)) = filter is_slider_update (out w)
     \<and> length (filter is_position_update (out (step e w)))
        = length (filter is_position_update (out w)) + (if e = Bus_eos then 1 else 0)"
    by (intro idle_step) auto
  from Cons.prems s have "pollers (run es (step e w)) = []
     \<and> (\<forall>e \<in> set es. \<not> is_poll_timeout e)
     \<and> filter is_slider_update (out (run es (step e w)))
        = filter is_slider_update (out (step e w))
     \<and> length (filter is_position_update (out (run es (step e w))))
        = length (filter is_position_update (out (step e w)))
          + length (filter (\<lambda>e. e = Bus_eos) es)"
    by (intro Cons.IH) auto
  with s show ?case by auto
qed

lemma sources_emit [simp]: "sources (emit as w) = sources w"
  by (simp add: emit_def)

lemma sources_extract [simp]: "sources (extract_thumbnails s r w) = sources w"
  by (cases "paused_ret r") (auto simp: extract_thumbnails_def Let_def split: option.splits)


lemma sources_timeout_add [simp]:
  "sources (g_timeout_add interval function sid w) = sources w @ [(sid, function)]"
  by (simp add: g_timeout_add_def emit_def)






section \<open>Properties\<close>

text \<open>
  C5: \<^verbatim>\<open>time_to_string\<close> of the unknown-time sentinel is exactly \<^verbatim>\<open>00:00:00.000\<close>, and of
  3,725,000,000,000 nanoseconds (1 h 2 min 5 s) exactly \<^verbatim>\<open>01:02:05.000\<close>.
\<close>

theorem time_to_string_examples:
  "time_to_string GST_CLOCK_TIME_NONE = ''00:00:00.000'' \<and>
   time_to_string 3725000000000 = ''01:02:05.000''"
  by code_simp

text \<open>
  C1 (as amended): for a known duration \<open>D\<close> with \<open>0 < D \<le> 92233720368547758\<close>
  nanoseconds (so that \<open>100 * D\<close> fits a \<^verbatim>\<open>gint64\<close>), the seek target of step \<open>s\<close>
  (\<open>0 \<le> s \<le> 9\<close>) is \<open>(s+1) * D * 10 / 100\<close>, that is \<open>(s+1) * D / 10\<close> rounded down; it
  is the position the step seeks to; the targets never decrease from one step to the
  next and increase strictly when \<open>D \<ge> 10\<close>; the targets of steps 0 to 8 are strictly
  below \<open>D\<close>, and the target of step 9 is \<open>D\<close> itself.
\<close>

theorem thumbnail_position_spacing:
  assumes "s \<le> 9" and "0 < sint D" and "sint D \<le> 92233720368547758"
  shows "sint (thumbnail_position (of_nat s) D) = (int s + 1) * sint D * 10 div 100
     \<and> sint (thumbnail_position (of_nat s) D) = (int s + 1) * sint D div 10
     \<and> sint (thumbnail_position (of_nat s) D) \<le> sint D
     \<and> (s < 9 \<longrightarrow> sint (thumbnail_position (of_nat s) D) < sint D)
     \<and> (s < 9 \<longrightarrow> sint (thumbnail_position (of_nat s) D)
                   \<le> sint (thumbnail_position (of_nat (Suc s)) D))
     \<and> (s < 9 \<and> 10 \<le> sint D \<longrightarrow>
          sint (thumbnail_position (of_nat s) D)
            < sint (thumbnail_position (of_nat (Suc s)) D))
     \<and> thumbnail_position 9 D = D
     \<and> (paused_ret r \<noteq> GST_STATE_CHANGE_FAILURE \<and> paused_ret r \<noteq> GST_STATE_CHANGE_NO_PREROLL
          \<and> duration_res r = Some D \<longrightarrow>
          take 3 (drop (length (out w)) (out (extract_thumbnails (of_nat s) r w))) =
            [Set_state Timelinebin GST_STATE_PAUSED, Query_duration Timelinebin,
             Seek_simple Timelinebin (thumbnail_position (of_nat s) D)])"
proof -
  have nn: "0 \<le> sint D" using assms(2) by simp
  have f: "sint (thumbnail_position (of_nat s) D) = (int s + 1) * sint D * 10 div 100"
    using assms(1) nn assms(3) by (rule thumbnail_position_sint)
  have t: "x * 10 div 100 = x div 10" for x :: int by simp
  have g: "sint (thumbnail_position (of_nat s) D) = (int s + 1) * sint D div 10"
    using f by (simp only: t)
  have f': "sint (thumbnail_position (of_nat (Suc s)) D) = (int s + 2) * sint D div 10"
    if "s < 9"
  proof -
    from that have "Suc s \<le> 9" by simp
    then have "sint (thumbnail_position (of_nat (Suc s)) D)
        = (int (Suc s) + 1) * sint D * 10 div 100"
      using nn assms(3) by (rule thumbnail_position_sint)
    moreover have "int (Suc s) + 1 = int s + 2" by simp
    ultimately show ?thesis by (simp only: t)
  qed
  have lt: "sint (thumbnail_position (of_nat s) D) < sint D" if "s < 9"
    using that assms(2) by (simp add: g tenth_less)
  have "sint (thumbnail_position 9 D) = sint D"
    using thumbnail_position_sint [of 9 D] nn assms(3) by simp
  then have last: "thumbnail_position 9 D = D" by (rule signed_word_eqI)
  have le: "sint (thumbnail_position (of_nat s) D) \<le> sint D"
  proof (cases "s < 9")
    case True
    then show ?thesis using lt by simp
  next
    case False
    with assms(1) have "s = 9" by simp
    then show ?thesis using last by simp
  qed
  have mono: "sint (thumbnail_position (of_nat s) D)
      \<le> sint (thumbnail_position (of_nat (Suc s)) D)" if "s < 9"
    using that nn by (simp only: g f' tenth_succ_le)
  have smono: "sint (thumbnail_position (of_nat s) D)
      < sint (thumbnail_position (of_nat (Suc s)) D)" if "s < 9" "10 \<le> sint D"
    using that by (simp only: g f' tenth_succ_less)
  have seek: "take 3 (drop (length (out w)) (out (extract_thumbnails (of_nat s) r w))) =
        [Set_state Timelinebin GST_STATE_PAUSED, Query_duration Timelinebin,
         Seek_simple Timelinebin (thumbnail_position (of_nat s) D)]"
    if "paused_ret r \<noteq> GST_STATE_CHANGE_FAILURE" "paused_ret r \<noteq> GST_STATE_CHANGE_NO_PREROLL"
      "duration_res r = Some D"
    using that
    by (cases "paused_ret r")
       (auto simp: extract_thumbnails_def Let_def emit_def query_result_def split: option.splits)
  show ?thesis using f g le lt mono smono last seek by blast
qed

text \<open>
  An instance: step 3 of a one-minute clip seeks to 24 s, before step 4 and before the
  end; step 9 seeks to the end.
\<close>

theorem thumbnail_position_spacing_witness:
  "(3::nat) \<le> 9 \<and> 0 < sint (60000000000 :: gint64)
   \<and> sint (60000000000 :: gint64) \<le> 92233720368547758
   \<and> sint (thumbnail_position 3 60000000000) = 24000000000
   \<and> sint (thumbnail_position 3 60000000000) < sint (thumbnail_position 4 60000000000)
   \<and> sint (thumbnail_position 3 60000000000) < sint (60000000000 :: gint64)
   \<and> thumbnail_position 9 60000000000 = 60000000000
   \<and> take 3 (drop (length (out main_init)) (out (extract_thumbnails 3 frame_response main_init))) =
        [Set_state Timelinebin GST_STATE_PAUSED, Query_duration Timelinebin,
         Seek_simple Timelinebin (thumbnail_position 3 60000000000)]"
proof -
  have h1: "(3::nat) \<le> 9" by simp
  have h2: "0 < sint (60000000000 :: gint64)" by simp
  have h3: "sint (60000000000 :: gint64) \<le> 92233720368547758" by simp
  have r: "paused_ret frame_response \<noteq> GST_STATE_CHANGE_FAILURE
      \<and> paused_ret frame_response \<noteq> GST_STATE_CHANGE_NO_PREROLL
      \<and> duration_res frame_response = Some 60000000000"
    by (simp add: frame_response_def)
  show ?thesis
    using thumbnail_position_spacing [OF h1 h2 h3, of frame_response main_init] r h2 h3
    by simp
qed

text \<open>
  The last target is not below the duration: for a one-minute clip step 9 seeks to
  60 s exactly. For a duration below 10 ns the targets are not strictly increasing:
  with 5 ns, steps 1 and 2 both seek to 1 ns.
\<close>

theorem thumbnail_position_last_equals_duration:
  "thumbnail_position 9 60000000000 = 60000000000
   \<and> \<not> thumbnail_position 9 60000000000 <s 60000000000
   \<and> \<not> thumbnail_position 1 5 <s thumbnail_position 2 5"
  by (simp add: thumbnail_position_def sdiv64_def word_sless_alt)

text \<open>
  C2 (as amended): when the state change of the timeline pipeline to paused fails or
  reports no-preroll at a step, only that step's extraction is given up: the step
  prints its message, makes no duration query, seek or pull, and leaves
  \<^verbatim>\<open>CustomData\<close> and the timeout sources as they were. The job goes on: the timeline
  image is still added, the counter advances and the timeout stays scheduled. Unless
  the failed step was the last one (step 9), the next tick performs the extraction
  step of the next index, whatever the pipeline answers then, beginning with the state
  change to paused again; after a failed last step the next tick tears the timeline
  pipeline down and removes the timeout.
\<close>

theorem failed_pause_skips_one_step:
  assumes "paused_ret r = GST_STATE_CHANGE_FAILURE \<or> paused_ret r = GST_STATE_CHANGE_NO_PREROLL"
    and "count w <s THUMBNAILS_NUMBER"
  shows "timeline_make_thumbnails r w =
     (True, w\<lparr>count := count w + 1,
              out := out w @ [Set_state Timelinebin GST_STATE_PAUSED,
                Print ((if paused_ret r = GST_STATE_CHANGE_FAILURE then ''failed to play the file''
                        else ''live sources not supported yet'') @ [CHR 0x0A]),
                Add_image]\<rparr>)
     \<and> sources (step (Thumb_timeout sid r) w) = sources w
     \<and> data (step (Thumb_timeout sid r) w) = data w
     \<and> (count w + 1 <s THUMBNAILS_NUMBER \<longrightarrow>
          timeline_make_thumbnails r' (step (Thumb_timeout sid r) w) =
            (True, (update_widget WIDGET_TYPE_TIMELINE
                      (extract_thumbnails (count w + 1) r' (step (Thumb_timeout sid r) w)))
                     \<lparr>count := count w + 1 + 1\<rparr>)
          \<and> take 1 (drop (length (out (step (Thumb_timeout sid r) w)))
                (out (step (Thumb_timeout sid r') (step (Thumb_timeout sid r) w))))
             = [Set_state Timelinebin GST_STATE_PAUSED]
          \<and> extractions (out (step (Thumb_timeout sid r') (step (Thumb_timeout sid r) w)))
             = extractions (out w) + 2
          \<and> sources (step (Thumb_timeout sid r') (step (Thumb_timeout sid r) w)) = sources w)
     \<and> (\<not> count w + 1 <s THUMBNAILS_NUMBER \<longrightarrow>
          timeline_make_thumbnails r' (step (Thumb_timeout sid r) w) =
            (False, emit [Set_state Timelinebin GST_STATE_NULL, Unref Timelinebin]
                      (step (Thumb_timeout sid r) w))
          \<and> extractions (out (step (Thumb_timeout sid r') (step (Thumb_timeout sid r) w)))
             = extractions (out w) + 1
          \<and> sources (step (Thumb_timeout sid r') (step (Thumb_timeout sid r) w))
             = filter (\<lambda>s. fst s \<noteq> sid) (sources w))"
proof -
  let ?w' = "step (Thumb_timeout sid r) w"
  note [simp del] = step.simps
  have a: "timeline_make_thumbnails r w =
     (True, w\<lparr>count := count w + 1,
              out := out w @ [Set_state Timelinebin GST_STATE_PAUSED,
                Print ((if paused_ret r = GST_STATE_CHANGE_FAILURE then ''failed to play the file''
                        else ''live sources not supported yet'') @ [CHR 0x0A]),
                Add_image]\<rparr>)"
    using assms
    by (auto simp: timeline_make_thumbnails_def extract_thumbnails_def Let_def
          update_widget_simps emit_def)
  then have w': "?w' = w\<lparr>count := count w + 1,
              out := out w @ [Set_state Timelinebin GST_STATE_PAUSED,
                Print ((if paused_ret r = GST_STATE_CHANGE_FAILURE then ''failed to play the file''
                        else ''live sources not supported yet'') @ [CHR 0x0A]),
                Add_image]\<rparr>"
    by (simp add: step.simps dispatch_timeout_def)
  have c': "count ?w' = count w + 1" and s': "sources ?w' = sources w"
    and d': "data ?w' = data w"
    and e': "extractions (out ?w') = extractions (out w) + 1"
    and l': "length (out ?w') = length (out w) + 3"
    by (simp_all add: w' extractions_def)
  have first: "take 1 (drop (length (out v)) (out (extract_thumbnails k r' v)))
      = [Set_state Timelinebin GST_STATE_PAUSED]" for k v
    by (cases "paused_ret r'")
       (auto simp: extract_thumbnails_def Let_def split: option.splits)
  have m: "timeline_make_thumbnails r' ?w' =
            (True, (update_widget WIDGET_TYPE_TIMELINE
                      (extract_thumbnails (count w + 1) r' ?w'))\<lparr>count := count w + 1 + 1\<rparr>)
          \<and> take 1 (drop (length (out ?w')) (out (step (Thumb_timeout sid r') ?w')))
             = [Set_state Timelinebin GST_STATE_PAUSED]
          \<and> extractions (out (step (Thumb_timeout sid r') ?w')) = extractions (out w) + 2
          \<and> sources (step (Thumb_timeout sid r') ?w') = sources w"
    if "count w + 1 <s THUMBNAILS_NUMBER"
  proof -
    from that have t: "timeline_make_thumbnails r' ?w' =
            (True, (update_widget WIDGET_TYPE_TIMELINE
                      (extract_thumbnails (count w + 1) r' ?w'))\<lparr>count := count w + 1 + 1\<rparr>)"
      by (simp add: timeline_make_thumbnails_def c')
    then have st: "step (Thumb_timeout sid r') ?w' =
        (update_widget WIDGET_TYPE_TIMELINE
           (extract_thumbnails (count w + 1) r' ?w'))\<lparr>count := count w + 1 + 1\<rparr>"
      by (simp add: step.simps dispatch_timeout_def)
    have o: "out (step (Thumb_timeout sid r') ?w')
        = out (extract_thumbnails (count w + 1) r' ?w') @ [Add_image]"
      by (simp add: st update_widget_timeline)
    have len: "length (out ?w') < length (out (extract_thumbnails (count w + 1) r' ?w'))"
      by (cases "paused_ret r'")
         (auto simp: extract_thumbnails_def Let_def split: option.splits)
    have tk: "take 1 (drop (length (out ?w')) (out (step (Thumb_timeout sid r') ?w')))
        = [Set_state Timelinebin GST_STATE_PAUSED]"
      using first [of ?w' "count w + 1"] len by (simp add: o)
    have ex: "extractions (out (step (Thumb_timeout sid r') ?w')) = extractions (out w) + 2"
      using extract_thumbnails_counts [of "count w + 1" r' ?w'] e'
      by (simp add: o extractions_def)
    have so: "sources (step (Thumb_timeout sid r') ?w') = sources w"
      by (simp add: st update_widget_timeline s')
    from t tk ex so show ?thesis by blast
  qed
  have n: "timeline_make_thumbnails r' ?w' =
            (False, emit [Set_state Timelinebin GST_STATE_NULL, Unref Timelinebin] ?w')
          \<and> extractions (out (step (Thumb_timeout sid r') ?w')) = extractions (out w) + 1
          \<and> sources (step (Thumb_timeout sid r') ?w') = filter (\<lambda>s. fst s \<noteq> sid) (sources w)"
    if "\<not> count w + 1 <s THUMBNAILS_NUMBER"
  proof -
    from that have t: "timeline_make_thumbnails r' ?w' =
            (False, emit [Set_state Timelinebin GST_STATE_NULL, Unref Timelinebin] ?w')"
      by (simp add: timeline_make_thumbnails_def c')
    then have st: "step (Thumb_timeout sid r') ?w' =
        destroy_source sid (emit [Set_state Timelinebin GST_STATE_NULL, Unref Timelinebin] ?w')"
      by (simp add: step.simps dispatch_timeout_def)
    have ex: "extractions (out (step (Thumb_timeout sid r') ?w')) = extractions (out w) + 1"
      using e' by (simp add: st extractions_def)
    have so: "sources (step (Thumb_timeout sid r') ?w') = filter (\<lambda>s. fst s \<noteq> sid) (sources w)"
      by (simp add: st destroy_source_def s')
    from t ex so show ?thesis by blast
  qed
  from a s' d' m n show ?thesis by blast
qed

text \<open>
  Two instances: a no-preroll answer at the first step of a job, after which the next
  tick performs step 1; and a no-preroll answer at the last step, after which the next
  tick tears the pipeline down.
\<close>

theorem failed_pause_skips_one_step_witness:
  "(paused_ret (frame_response\<lparr>paused_ret := GST_STATE_CHANGE_NO_PREROLL\<rparr>)
      = GST_STATE_CHANGE_FAILURE
    \<or> paused_ret (frame_response\<lparr>paused_ret := GST_STATE_CHANGE_NO_PREROLL\<rparr>)
      = GST_STATE_CHANGE_NO_PREROLL)
   \<and> count main_init <s THUMBNAILS_NUMBER
   \<and> timeline_make_thumbnails
        (frame_response\<lparr>paused_ret := GST_STATE_CHANGE_NO_PREROLL\<rparr>) main_init =
       (True, main_init\<lparr>count := 1,
          out := out main_init @ [Set_state Timelinebin GST_STATE_PAUSED,
            Print (''live sources not supported yet'' @ [CHR 0x0A]), Add_image]\<rparr>)
   \<and> count main_init + 1 <s THUMBNAILS_NUMBER
   \<and> extractions (out (step (Thumb_timeout 1 frame_response)
        (step (Thumb_timeout 1 (frame_response\<lparr>paused_ret := GST_STATE_CHANGE_NO_PREROLL\<rparr>))
           main_init))) = extractions (out main_init) + 2
   \<and> count (run (Open_clicked (Some ''file:///clip.mp4'') 1
        # replicate 9 (Thumb_timeout 1 frame_response)) main_init) <s THUMBNAILS_NUMBER
   \<and> \<not> count (run (Open_clicked (Some ''file:///clip.mp4'') 1
        # replicate 9 (Thumb_timeout 1 frame_response)) main_init) + 1 <s THUMBNAILS_NUMBER
   \<and> sources (step (Thumb_timeout 1 frame_response)
        (step (Thumb_timeout 1 (frame_response\<lparr>paused_ret := GST_STATE_CHANGE_NO_PREROLL\<rparr>))
           (run (Open_clicked (Some ''file:///clip.mp4'') 1
              # replicate 9 (Thumb_timeout 1 frame_response)) main_init))) = []"
proof -
  let ?r = "frame_response\<lparr>paused_ret := GST_STATE_CHANGE_NO_PREROLL\<rparr>"
  let ?w9 = "run (Open_clicked (Some ''file:///clip.mp4'') 1
        # replicate 9 (Thumb_timeout 1 frame_response)) main_init"
  have h1: "paused_ret ?r = GST_STATE_CHANGE_FAILURE \<or> paused_ret ?r = GST_STATE_CHANGE_NO_PREROLL"
    by simp
  have h2: "count main_init <s THUMBNAILS_NUMBER"
    by (simp add: main_init_def THUMBNAILS_NUMBER_def word_sless_alt)
  have h3: "count main_init + 1 <s THUMBNAILS_NUMBER"
    by (simp add: main_init_def THUMBNAILS_NUMBER_def word_sless_alt)
  have c: "count main_init + 1 = 1" by (simp add: main_init_def)
  have k2: "count ?w9 <s THUMBNAILS_NUMBER" by code_simp
  have k3: "\<not> count ?w9 + 1 <s THUMBNAILS_NUMBER" by code_simp
  have s9: "sources ?w9 = [(1, Timeline_make_thumbnails)]" by code_simp
  note first = failed_pause_skips_one_step [OF h1 h2, of 1 frame_response]
  note last = failed_pause_skips_one_step [OF h1 k2, of 1 frame_response]
  from first have a: "timeline_make_thumbnails ?r main_init =
       (True, main_init\<lparr>count := 1,
          out := out main_init @ [Set_state Timelinebin GST_STATE_PAUSED,
            Print (''live sources not supported yet'' @ [CHR 0x0A]), Add_image]\<rparr>)"
    by (simp add: c)
  from first h3 have b: "extractions (out (step (Thumb_timeout 1 frame_response)
        (step (Thumb_timeout 1 ?r) main_init))) = extractions (out main_init) + 2"
    by blast
  from last k3 have "sources (step (Thumb_timeout 1 frame_response)
        (step (Thumb_timeout 1 ?r) ?w9)) = filter (\<lambda>s. fst s \<noteq> 1) (sources ?w9)"
    by blast
  then have d: "sources (step (Thumb_timeout 1 frame_response)
        (step (Thumb_timeout 1 ?r) ?w9)) = []"
    by (simp only: s9) simp
  from h1 h2 a h3 b k2 k3 d show ?thesis by (intro conjI)
qed

text \<open>
  A job whose first step meets a no-preroll answer still performs the next step one
  tick later: it sets the timeline pipeline to paused again, seeks to 12 s and saves a
  snapshot.
\<close>

theorem failed_pause_job_continues:
  "valid_trace
     [Open_clicked (Some ''file:///clip.mp4'') 1,
      Thumb_timeout 1 (frame_response\<lparr>paused_ret := GST_STATE_CHANGE_NO_PREROLL\<rparr>),
      Thumb_timeout 1 frame_response] main_init
   \<and> drop 6 (out (run
     [Open_clicked (Some ''file:///clip.mp4'') 1,
      Thumb_timeout 1 (frame_response\<lparr>paused_ret := GST_STATE_CHANGE_NO_PREROLL\<rparr>),
      Thumb_timeout 1 frame_response] main_init)) =
     [Set_state Timelinebin GST_STATE_PAUSED,
      Print (''live sources not supported yet'' @ [CHR 0x0A]), Add_image,
      Set_state Timelinebin GST_STATE_PAUSED, Query_duration Timelinebin,
      Seek_simple Timelinebin 12000000000, Pull_preroll, Pixbuf_save 160 90 480, Add_image]"
  by code_simp

text \<open>
  C3 (as amended): a step whose pull yields no frame prints its message and saves no
  snapshot, but the timeline image is added all the same; in every run the number of
  thumbnail notifications equals the number of extraction steps performed, so a job of
  10 steps emits 10 notifications whatever the pulls return.
\<close>

theorem empty_pull_still_notifies:
  "(paused_ret r \<noteq> GST_STATE_CHANGE_FAILURE \<and> paused_ret r \<noteq> GST_STATE_CHANGE_NO_PREROLL
     \<and> pulled r = None \<and> count w <s THUMBNAILS_NUMBER \<longrightarrow>
     timeline_make_thumbnails r w =
       (True, w\<lparr>data := (data w)\<lparr>duration := query_result (duration_res r)\<rparr>,
                count := count w + 1,
                out := out w @ [Set_state Timelinebin GST_STATE_PAUSED,
                  Query_duration Timelinebin,
                  Seek_simple Timelinebin
                    (thumbnail_position (count w) (query_result (duration_res r))),
                  Pull_preroll,
                  Print (''could not make snapshot'' @ [CHR 0x0A]),
                  Add_image]\<rparr>))
   \<and> notifications (out (run evs main_init)) = extractions (out (run evs main_init))"
proof -
  have a: "timeline_make_thumbnails r w =
       (True, w\<lparr>data := (data w)\<lparr>duration := query_result (duration_res r)\<rparr>,
                count := count w + 1,
                out := out w @ [Set_state Timelinebin GST_STATE_PAUSED,
                  Query_duration Timelinebin,
                  Seek_simple Timelinebin
                    (thumbnail_position (count w) (query_result (duration_res r))),
                  Pull_preroll,
                  Print (''could not make snapshot'' @ [CHR 0x0A]),
                  Add_image]\<rparr>)"
    if "paused_ret r \<noteq> GST_STATE_CHANGE_FAILURE" "paused_ret r \<noteq> GST_STATE_CHANGE_NO_PREROLL"
      "pulled r = None" "count w <s THUMBNAILS_NUMBER"
    using that
    by (cases "paused_ret r")
       (auto simp: timeline_make_thumbnails_def extract_thumbnails_def Let_def
          update_widget_simps emit_def)
  have "counted (run evs main_init)" using counted_init by (rule counted_run)
  then have b: "notifications (out (run evs main_init)) = extractions (out (run evs main_init))"
    by (simp add: counted_def)
  from a b show ?thesis by blast
qed

text \<open>An instance: the first step of a job whose sink delivers no frame.\<close>

theorem empty_pull_still_notifies_witness:
  "paused_ret (frame_response\<lparr>pulled := None\<rparr>) \<noteq> GST_STATE_CHANGE_FAILURE
   \<and> paused_ret (frame_response\<lparr>pulled := None\<rparr>) \<noteq> GST_STATE_CHANGE_NO_PREROLL
   \<and> pulled (frame_response\<lparr>pulled := None\<rparr>) = None
   \<and> count main_init <s THUMBNAILS_NUMBER
   \<and> timeline_make_thumbnails (frame_response\<lparr>pulled := None\<rparr>) main_init =
       (True, main_init\<lparr>data := (data main_init)\<lparr>duration := 60000000000\<rparr>,
          count := 1,
          out := out main_init @ [Set_state Timelinebin GST_STATE_PAUSED,
            Query_duration Timelinebin, Seek_simple Timelinebin 6000000000, Pull_preroll,
            Print (''could not make snapshot'' @ [CHR 0x0A]), Add_image]\<rparr>)"
proof -
  let ?r = "frame_response\<lparr>pulled := None\<rparr>"
  have h: "paused_ret ?r \<noteq> GST_STATE_CHANGE_FAILURE
      \<and> paused_ret ?r \<noteq> GST_STATE_CHANGE_NO_PREROLL \<and> pulled ?r = None
      \<and> count main_init <s THUMBNAILS_NUMBER"
    by (simp add: frame_response_def main_init_def THUMBNAILS_NUMBER_def word_sless_alt)
  have c: "count main_init = 0" "duration_res ?r = Some 60000000000"
    by (simp_all add: main_init_def frame_response_def)
  have p: "thumbnail_position 0 60000000000 = 6000000000"
    by (simp add: thumbnail_position_def sdiv64_def)
  show ?thesis
    using empty_pull_still_notifies [of ?r main_init "[]"] h
    by (simp add: c p query_result_def)
qed

text \<open>
  A job in which all ten pulls yield no frame emits ten thumbnail notifications, not
  fewer.
\<close>

theorem ten_empty_pulls_ten_notifications:
  "valid_trace (Open_clicked (Some ''file:///clip.mp4'') 1
      # replicate 10 (Thumb_timeout 1 (frame_response\<lparr>pulled := None\<rparr>))) main_init
   \<and> notifications (out (run (Open_clicked (Some ''file:///clip.mp4'') 1
      # replicate 10 (Thumb_timeout 1 (frame_response\<lparr>pulled := None\<rparr>))) main_init)) = 10"
  by code_simp
text \<open>
  C4 (as amended): at every thumbnail step whose state change to paused does not fail,
  whatever the step index, the duration is queried from the timeline pipeline and the
  answer (the sentinel when the query fails) is stored in the \<^verbatim>\<open>duration\<close> field of the
  one \<^verbatim>\<open>CustomData\<close> that playback uses; there is no job-local copy. The fields
  \<^verbatim>\<open>state\<close>, \<^verbatim>\<open>position\<close> and \<^verbatim>\<open>timer_id\<close> are not changed by a thumbnail step.
\<close>

theorem thumbnail_step_overwrites_session_duration:
  assumes "paused_ret r \<noteq> GST_STATE_CHANGE_FAILURE"
    and "paused_ret r \<noteq> GST_STATE_CHANGE_NO_PREROLL"
  shows "duration (data (extract_thumbnails k r w)) = query_result (duration_res r)
     \<and> take 2 (drop (length (out w)) (out (extract_thumbnails k r w))) =
         [Set_state Timelinebin GST_STATE_PAUSED, Query_duration Timelinebin]
     \<and> state (data (extract_thumbnails k r w)) = state (data w)
     \<and> position (data (extract_thumbnails k r w)) = position (data w)
     \<and> timer_id (data (extract_thumbnails k r w)) = timer_id (data w)"
  using assms
  by (cases "paused_ret r")
     (auto simp: extract_thumbnails_def Let_def emit_def split: option.splits)

text \<open>
  An instance: step 1 of a job, with a failing duration query, on the session that is
  playing a one-minute clip.
\<close>

theorem thumbnail_step_overwrites_session_duration_witness:
  "paused_ret (frame_response\<lparr>duration_res := None\<rparr>) \<noteq> GST_STATE_CHANGE_FAILURE
   \<and> paused_ret (frame_response\<lparr>duration_res := None\<rparr>) \<noteq> GST_STATE_CHANGE_NO_PREROLL
   \<and> duration (data (run playing_session main_init)) = 60000000000
   \<and> duration (data (extract_thumbnails 1 (frame_response\<lparr>duration_res := None\<rparr>)
        (run playing_session main_init))) = GST_CLOCK_TIME_NONE"
proof -
  let ?r = "frame_response\<lparr>duration_res := None\<rparr>"
  have h1: "paused_ret ?r \<noteq> GST_STATE_CHANGE_FAILURE" by (simp add: frame_response_def)
  have h2: "paused_ret ?r \<noteq> GST_STATE_CHANGE_NO_PREROLL" by (simp add: frame_response_def)
  have d: "duration (data (run playing_session main_init)) = 60000000000" by code_simp
  show ?thesis
    using thumbnail_step_overwrites_session_duration
            [OF h1 h2, of 1 "run playing_session main_init"] h1 h2 d
    by (simp add: query_result_def)
qed

text \<open>
  The second step of a job queries the duration again, and its answer replaces the
  duration that the playing session had stored: here the query fails and the
  session's duration goes from one minute to the sentinel.
\<close>

theorem second_step_overwrites_session_duration:
  "valid_trace (playing_session @ [Thumb_timeout 1 frame_response,
       Thumb_timeout 1 (frame_response\<lparr>duration_res := None\<rparr>)]) main_init
   \<and> duration (data (run (playing_session @ [Thumb_timeout 1 frame_response]) main_init))
       = 60000000000
   \<and> duration (data (run (playing_session @ [Thumb_timeout 1 frame_response,
       Thumb_timeout 1 (frame_response\<lparr>duration_res := None\<rparr>)]) main_init))
       = GST_CLOCK_TIME_NONE
   \<and> length (filter (\<lambda>a. a = Query_duration Timelinebin)
       (out (run (playing_session @ [Thumb_timeout 1 frame_response,
          Thumb_timeout 1 (frame_response\<lparr>duration_res := None\<rparr>)]) main_init))) = 2"
  by code_simp

text \<open>
  C6: a tick of the position poller queries the position and stores the answer. When
  the answer \<open>q\<close> is strictly below the duration, the tick sets the position label and
  the slider and keeps its timeout source. When \<open>q\<close> equals the duration, the tick
  updates no widget, resets \<^verbatim>\<open>timer_id\<close> and its source is removed.
\<close>

theorem poller_tick:
  "(q <s duration (data w) \<longrightarrow>
      timer_src_func (Some q) w =
        (True, w\<lparr>data := (data w)\<lparr>position := q\<rparr>,
                 out := out w @ [Query_position Playbin,
                                 Label_set_text ''position'' (''Position: '' @ time_to_string q),
                                 Range_set_value q (duration (data w))]\<rparr>)
      \<and> sources (step (Poll_timeout sid (Some q)) w) = sources w)
   \<and> (q = duration (data w) \<longrightarrow>
      timer_src_func (Some q) w =
        (False, w\<lparr>data := (data w)\<lparr>position := q, timer_id := - 1\<rparr>,
                  out := out w @ [Query_position Playbin]\<rparr>)
      \<and> sources (step (Poll_timeout sid (Some q)) w)
          = filter (\<lambda>s. fst s \<noteq> sid) (sources w))"
  by (auto simp: timer_src_func_def Let_def update_widget_simps emit_def query_result_def
        dispatch_timeout_def destroy_source_def word_sless_alt)

text \<open>
  Two instances on the session that is playing a one-minute clip: a tick at 2 s and a
  tick at the end.
\<close>

theorem poller_tick_witness:
  "(2000000000 :: gint64) <s duration (data (run playing_session main_init))
   \<and> fst (timer_src_func (Some 2000000000) (run playing_session main_init))
   \<and> drop (length (out (run playing_session main_init)))
        (out (snd (timer_src_func (Some 2000000000) (run playing_session main_init)))) =
       [Query_position Playbin, Label_set_text ''position'' ''Position: 00:00:02.000'',
        Range_set_value 2000000000 60000000000]
   \<and> (60000000000 :: gint64) = duration (data (run playing_session main_init))
   \<and> \<not> fst (timer_src_func (Some 60000000000) (run playing_session main_init))
   \<and> drop (length (out (run playing_session main_init)))
        (out (snd (timer_src_func (Some 60000000000) (run playing_session main_init)))) =
       [Query_position Playbin]
   \<and> sources (step (Poll_timeout 2 (Some 60000000000)) (run playing_session main_init)) =
       [(1, Timeline_make_thumbnails)]"
proof -
  let ?w = "run playing_session main_init"
  have d: "duration (data ?w) = 60000000000" by code_simp
  have s: "sources ?w = [(1, Timeline_make_thumbnails), (2, Timer_src_func)]" by code_simp
  have t: "time_to_string 2000000000 = ''00:00:02.000''" by code_simp
  have h1: "(2000000000 :: gint64) <s duration (data ?w)" by (simp add: d word_sless_alt)
  have h2: "(60000000000 :: gint64) = duration (data ?w)" by (simp add: d)
  from poller_tick [of 2000000000 ?w 2] h1
  have a: "timer_src_func (Some 2000000000) ?w =
        (True, ?w\<lparr>data := (data ?w)\<lparr>position := 2000000000\<rparr>,
                 out := out ?w @ [Query_position Playbin,
                   Label_set_text ''position'' (''Position: '' @ time_to_string 2000000000),
                   Range_set_value 2000000000 (duration (data ?w))]\<rparr>)"
    by blast
  from poller_tick [of 60000000000 ?w 2] h2
  have b: "timer_src_func (Some 60000000000) ?w =
        (False, ?w\<lparr>data := (data ?w)\<lparr>position := 60000000000, timer_id := - 1\<rparr>,
                  out := out ?w @ [Query_position Playbin]\<rparr>)
      \<and> sources (step (Poll_timeout 2 (Some 60000000000)) ?w)
          = filter (\<lambda>s. fst s \<noteq> 2) (sources ?w)"
    by blast
  have c1: "fst (timer_src_func (Some 2000000000) ?w)" by (simp add: a)
  have c2: "drop (length (out ?w)) (out (snd (timer_src_func (Some 2000000000) ?w))) =
       [Query_position Playbin, Label_set_text ''position'' ''Position: 00:00:02.000'',
        Range_set_value 2000000000 60000000000]"
    by (simp add: a d t)
  have c3: "\<not> fst (timer_src_func (Some 60000000000) ?w)" by (simp add: b)
  have c4: "drop (length (out ?w)) (out (snd (timer_src_func (Some 60000000000) ?w))) =
       [Query_position Playbin]"
    by (simp add: b)
  have c5: "sources (step (Poll_timeout 2 (Some 60000000000)) ?w) =
       [(1, Timeline_make_thumbnails)]"
    unfolding conjunct2 [OF b] s by simp
  from h1 c1 c2 h2 c3 c4 c5 show ?thesis by (intro conjI)
qed
text \<open>
  C7: on an end-of-stream event the controller requests the ready state of the
  playbin, sets the position to the duration and updates the position label exactly
  once; the poller's sources play no part in it.
\<close>

theorem eos_forces_position:
  "step Bus_eos w =
     w\<lparr>data := (data w)\<lparr>position := duration (data w)\<rparr>,
       out := out w @ [Print (''End-Of-Stream reached.'' @ [CHR 0x0A]),
                       Set_state Playbin GST_STATE_READY,
                       Label_set_text ''position''
                         (''Position: '' @ time_to_string (duration (data w)))]\<rparr>
   \<and> position (data (step Bus_eos w)) = duration (data (step Bus_eos w))
   \<and> length (filter is_position_update (out (step Bus_eos w)))
       = Suc (length (filter is_position_update (out w)))
   \<and> sources (step Bus_eos w) = sources w"
  by (simp add: eos_cb_def Let_def update_widget_simps emit_def)



text \<open>
  C9: once a state-changed message of the playbin into the paused state has been
  handled, no position-polling source is live. Until the playing state is confirmed
  again, no polling timeout fires at all (so none fires 20 ms later or at any other
  time), no slider update is emitted, and the position label is set only by
  end-of-stream events, once each.
\<close>

theorem pause_cancels_poller:
  assumes "valid_trace (evs @ [Bus_state_changed True GST_STATE_PAUSED sid res] @ evs') main_init"
    and "\<forall>e \<in> set evs'. \<not> confirms_playing e"
  shows "pollers (run (evs @ [Bus_state_changed True GST_STATE_PAUSED sid res]) main_init) = []
     \<and> (\<forall>e \<in> set evs'. \<not> is_poll_timeout e)
     \<and> pollers (run (evs @ [Bus_state_changed True GST_STATE_PAUSED sid res] @ evs')
          main_init) = []
     \<and> filter is_slider_update
          (out (run (evs @ [Bus_state_changed True GST_STATE_PAUSED sid res] @ evs') main_init))
        = filter is_slider_update
          (out (run (evs @ [Bus_state_changed True GST_STATE_PAUSED sid res]) main_init))
     \<and> length (filter is_position_update
          (out (run (evs @ [Bus_state_changed True GST_STATE_PAUSED sid res] @ evs') main_init)))
        = length (filter is_position_update
          (out (run (evs @ [Bus_state_changed True GST_STATE_PAUSED sid res]) main_init)))
          + length (filter (\<lambda>e. e = Bus_eos) evs')"
proof -
  let ?p = "Bus_state_changed True GST_STATE_PAUSED sid res"
  let ?w = "run (evs @ [?p]) main_init"
  from assms(1) have v: "valid_trace evs main_init" and v': "valid_trace evs' ?w"
    by (simp_all add: valid_trace_append run_append)
  have "poller_ok (run evs main_init)" using poller_ok_init v by (rule poller_ok_run)
  then have "pollers (step ?p (run evs main_init)) = []" by (rule paused_clears_pollers)
  then have idle: "pollers ?w = []" by (simp only: run_append run.simps)
  have r: "run (evs @ [?p] @ evs') main_init = run evs' ?w"
    by (simp add: run_append)
  from idle_run [OF idle v' assms(2)] idle show ?thesis
    unfolding r by blast
qed

text \<open>
  An instance: the playing session is paused; afterwards a thumbnail step runs, the
  stream ends and the user presses stop.
\<close>

theorem pause_cancels_poller_witness:
  "valid_trace (playing_session @ [Bus_state_changed True GST_STATE_PAUSED 3 None]
      @ [Thumb_timeout 1 frame_response, Bus_eos, Stop_clicked]) main_init
   \<and> \<not> confirms_playing (Thumb_timeout 1 frame_response)
   \<and> \<not> confirms_playing Bus_eos
   \<and> \<not> confirms_playing Stop_clicked
   \<and> pollers (run playing_session main_init) = [2]
   \<and> pollers (run (playing_session @ [Bus_state_changed True GST_STATE_PAUSED 3 None])
        main_init) = []
   \<and> pollers (run (playing_session @ [Bus_state_changed True GST_STATE_PAUSED 3 None]
        @ [Thumb_timeout 1 frame_response, Bus_eos, Stop_clicked]) main_init) = []"
proof -
  have h1: "valid_trace (playing_session @ [Bus_state_changed True GST_STATE_PAUSED 3 None]
      @ [Thumb_timeout 1 frame_response, Bus_eos, Stop_clicked]) main_init"
    by code_simp
  have h2: "\<forall>e \<in> set [Thumb_timeout 1 frame_response, Bus_eos, Stop_clicked].
      \<not> confirms_playing e"
    by simp
  have p: "pollers (run playing_session main_init) = [2]" by code_simp
  have h3: "\<not> confirms_playing (Thumb_timeout 1 frame_response)
      \<and> \<not> confirms_playing Bus_eos \<and> \<not> confirms_playing Stop_clicked"
    by simp
  from pause_cancels_poller [OF h1 h2] h1 h3 p show ?thesis by blast
qed
text \<open>
  C10: over the whole life of the process, whatever the events and however many files
  are opened, at most 10 extraction steps are performed, and their number is always
  the value of the static counter. Opening a file does not touch the counter, so the
  steps of a later job go on from the value the earlier ones left; once the counter
  has reached 10, a tick of any stepping timer performs no extraction.
\<close>

theorem thumbnail_steps_bounded:
  "extractions (out (run evs main_init)) \<le> 10
   \<and> extractions (out (run evs main_init)) = nat (sint (count (run evs main_init)))
   \<and> count (step (Open_clicked res sid) w) = count w
   \<and> (\<not> count w <s THUMBNAILS_NUMBER \<longrightarrow>
        extractions (out (step (Thumb_timeout sid r) w)) = extractions (out w)
        \<and> count (step (Thumb_timeout sid r) w) = count w)"
proof -
  have "counted (run evs main_init)" using counted_init by (rule counted_run)
  then have a: "extractions (out (run evs main_init)) \<le> 10
      \<and> extractions (out (run evs main_init)) = nat (sint (count (run evs main_init)))"
    by (simp add: counted_def nat_le_iff)
  have b: "count (step (Open_clicked res sid) w) = count w"
    by (simp add: open_cb_def g_timeout_add_def emit_def split: option.splits)
  have c: "extractions (out (step (Thumb_timeout sid r) w)) = extractions (out w)
      \<and> count (step (Thumb_timeout sid r) w) = count w"
    if "\<not> count w <s THUMBNAILS_NUMBER"
    using that
    by (simp add: timeline_make_thumbnails_def dispatch_timeout_def destroy_source_def
          emit_def extractions_def)
  from a b c show ?thesis by blast
qed

text \<open>
  An instance: a first job performs three steps, a second file is opened, and the new
  timer's first tick is step 3 (it seeks to 24 s of the one-minute clip); after seven
  ticks of the new timer ten steps have been performed in all, and its next tick
  performs none.
\<close>

theorem thumbnail_steps_bounded_witness:
  "drop 28 (out (run (Open_clicked (Some ''file:///clip.mp4'') 1
        # replicate 3 (Thumb_timeout 1 frame_response)
        @ [Open_clicked (Some ''file:///other.mp4'') 2, Thumb_timeout 2 frame_response])
      main_init)) =
     [Set_state Timelinebin GST_STATE_PAUSED, Query_duration Timelinebin,
      Seek_simple Timelinebin 24000000000, Pull_preroll, Pixbuf_save 160 90 480, Add_image]
   \<and> valid_trace ((Open_clicked (Some ''file:///clip.mp4'') 1
        # replicate 3 (Thumb_timeout 1 frame_response)
        @ Open_clicked (Some ''file:///other.mp4'') 2
        # replicate 7 (Thumb_timeout 2 frame_response))
        @ [Thumb_timeout 2 frame_response]) main_init
   \<and> \<not> count (run (Open_clicked (Some ''file:///clip.mp4'') 1
        # replicate 3 (Thumb_timeout 1 frame_response)
        @ Open_clicked (Some ''file:///other.mp4'') 2
        # replicate 7 (Thumb_timeout 2 frame_response)) main_init) <s THUMBNAILS_NUMBER
   \<and> extractions (out (run (Open_clicked (Some ''file:///clip.mp4'') 1
        # replicate 3 (Thumb_timeout 1 frame_response)
        @ Open_clicked (Some ''file:///other.mp4'') 2
        # replicate 7 (Thumb_timeout 2 frame_response)) main_init)) = 10
   \<and> extractions (out (step (Thumb_timeout 2 frame_response)
        (run (Open_clicked (Some ''file:///clip.mp4'') 1
        # replicate 3 (Thumb_timeout 1 frame_response)
        @ Open_clicked (Some ''file:///other.mp4'') 2
        # replicate 7 (Thumb_timeout 2 frame_response)) main_init))) = 10"
proof -
  let ?tr = "Open_clicked (Some ''file:///clip.mp4'') 1
        # replicate 3 (Thumb_timeout 1 frame_response)
        @ Open_clicked (Some ''file:///other.mp4'') 2
        # replicate 7 (Thumb_timeout 2 frame_response)"
  have s: "drop 28 (out (run (Open_clicked (Some ''file:///clip.mp4'') 1
        # replicate 3 (Thumb_timeout 1 frame_response)
        @ [Open_clicked (Some ''file:///other.mp4'') 2, Thumb_timeout 2 frame_response])
      main_init)) =
     [Set_state Timelinebin GST_STATE_PAUSED, Query_duration Timelinebin,
      Seek_simple Timelinebin 24000000000, Pull_preroll, Pixbuf_save 160 90 480, Add_image]"
    by code_simp
  have v: "valid_trace (?tr @ [Thumb_timeout 2 frame_response]) main_init" by code_simp
  have h: "\<not> count (run ?tr main_init) <s THUMBNAILS_NUMBER" by code_simp
  have e: "extractions (out (run ?tr main_init)) = 10" by code_simp
  from thumbnail_steps_bounded [of ?tr None 2 "run ?tr main_init" frame_response] h
  have "extractions (out (step (Thumb_timeout 2 frame_response) (run ?tr main_init)))
      = extractions (out (run ?tr main_init))"
    by blast
  then have f: "extractions (out (step (Thumb_timeout 2 frame_response) (run ?tr main_init)))
      = 10"
    by (simp only: e)
  from s v h e f show ?thesis by (intro conjI)
qed

end
